theory Spec2Isabelle
  imports
    Main
    "HOL-Library.Word"
    "HOL-Library.Signed_Division"
    "HOL-Library.Sublist"
begin

section \<open>Go values shared by the handlers\<close>

text \<open>
  A Go \<open>error\<close> is a value carrying its message; \<open>nil\<close> is \<open>None\<close> of
  \<open>error option\<close>. A Go function returning \<open>(T, error)\<close> is a pair, or a sum
  \<open>error + T\<close> where the caller never looks at the value next to a non-nil error. A
  \<open>*string\<close> is a \<open>string option\<close>, \<open>nil\<close> being \<open>None\<close>.
\<close>

datatype error = Error string

type_synonym uuid = string

text \<open>
  \<open>database.Video\<close>, with the fields the handlers read or write. The declaration is
  in \<open>internal/database\<close>; its other fields (title, description, timestamps) are
  carried along untouched.
\<close>

record Video =
  ID :: uuid
  UserID :: uuid
  ThumbnailURL :: "string option"
  VideoURL :: "string option"

record apiConfig =
  jwtSecret :: string
  s3Bucket :: string
  s3Region :: string

text \<open>The request as the handler reads it: the path value, the headers, the body.\<close>

record request =
  PathValue_videoID :: string
  Header :: "(string \<times> string) list"
  Body :: string

text \<open>
  What a handler tells its client is the one call it makes to \<open>respondWithError\<close>
  or \<open>respondWithJSON\<close>, with the status code, the message or payload, and the error
  handed over for logging. A run-time panic (an index out of range) ends the handler
  without either call.
\<close>

datatype response =
  respondWithError nat string "error option"
| respondWithJSON nat Video
| runtime_panic

abbreviation (input) StatusOK :: nat where "StatusOK \<equiv> 200"
abbreviation (input) StatusBadRequest :: nat where "StatusBadRequest \<equiv> 400"
abbreviation (input) StatusUnauthorized :: nat where "StatusUnauthorized \<equiv> 401"
abbreviation (input) StatusInternalServerError :: nat where "StatusInternalServerError \<equiv> 500"

subsection \<open>The stores and the calls made to them\<close>

text \<open>
  The state outside the handler: the metadata store (video id to record), the object
  store (bucket and key to content type and body; the body is named by the file it is
  read from), and the log of the calls that reached either store or the presign client.
\<close>

datatype call =
  Call_PutObject string string string string
| Call_UpdateVideo Video
| Call_PresignGetObject string string int

record world =
  db :: "uuid \<rightharpoonup> Video"
  objects :: "string \<times> string \<rightharpoonup> string \<times> string"
  calls :: "call list"

subsection \<open>Processes and libraries\<close>

text \<open>
  \<open>cmd.Run()\<close> of \<open>os/exec\<close> starts the subprocess and waits for it. When the start
  fails (no such binary, no permission) nothing was written to the buffer behind
  \<open>cmd.Stdout\<close>; when the process ran, \<open>Run\<close> returns nil or the exit error, and the
  buffer holds what the process printed.
\<close>

datatype run_outcome = NotStarted error | Exited "error option" string

fun run_error :: "run_outcome \<Rightarrow> error option" where
  "run_error (NotStarted err) = Some err"
| "run_error (Exited err out) = err"

fun run_stdout :: "run_outcome \<Rightarrow> string" where
  "run_stdout (NotStarted err) = []"
| "run_stdout (Exited err out) = out"

text \<open>
  One entry of \<open>data.Streams\<close>. Go's \<open>int\<close> is the 64-bit two's-complement integer
  of the platforms the server is built for: \<open>*\<close> wraps around, \<open>/\<close> truncates
  towards zero, comparisons are signed.
\<close>

record stream =
  CodecType :: string
  Width :: "64 word"
  Height :: "64 word"

text \<open>
  The processes and libraries the handlers call, as parameters. Each field is named after
  the Go call it stands for and receives the arguments the source passes.
  \<^item> \<open>uuid_Parse\<close>, \<open>auth_GetBearerToken\<close>, \<open>auth_ValidateJWT token secret\<close>.
  \<^item> \<open>ParseMultipartForm body maxMemory\<close> behind \<open>http.MaxBytesReader\<close>;
    \<open>FormFile body name\<close> yields the part's bytes and its \<open>Content-Type\<close> header.
  \<^item> \<open>mime_ParseMediaType header\<close> yields the media type.
  \<^item> \<open>os_CreateTemp dir pattern\<close> yields the name of the new file;
    \<open>io_Copy dst src\<close> and \<open>os_Open name\<close> yield their error, if any.
  \<^item> \<open>rand_Read n\<close>: \<open>crypto/rand.Read\<close> on a buffer of \<open>n\<close> bytes, the bytes it wrote.
  \<^item> \<open>exec_Run name args\<close>: \<open>exec.Command(name, args...).Run()\<close>.
  \<^item> \<open>json_checkValid\<close>, \<open>json_decode\<close>: the two phases of \<open>json.Unmarshal\<close> on a
    non-empty input (see \<open>json_Unmarshal\<close> below).
  \<^item> \<open>s3_PutObject bucket key body contentType\<close>: the error of the upload, if any.
  \<^item> \<open>s3_PresignGetObject bucket key expires\<close>: the URL of the presign client.
  \<^item> \<open>db_UpdateVideo_error video\<close>: the error of \<open>cfg.db.UpdateVideo(video)\<close>, if any.
\<close>

record env =
  uuid_Parse :: "string \<Rightarrow> error + uuid"
  auth_GetBearerToken :: "(string \<times> string) list \<Rightarrow> error + string"
  auth_ValidateJWT :: "string \<Rightarrow> string \<Rightarrow> error + uuid"
  ParseMultipartForm :: "string \<Rightarrow> nat \<Rightarrow> error option"
  FormFile :: "string \<Rightarrow> string \<Rightarrow> error + string \<times> string"
  mime_ParseMediaType :: "string \<Rightarrow> error + string"
  os_CreateTemp :: "string \<Rightarrow> string \<Rightarrow> error + string"
  io_Copy :: "string \<Rightarrow> string \<Rightarrow> error option"
  os_Open :: "string \<Rightarrow> error option"
  rand_Read :: "nat \<Rightarrow> error + 8 word list"
  exec_Run :: "string \<Rightarrow> string list \<Rightarrow> run_outcome"
  json_checkValid :: "string \<Rightarrow> error option"
  json_decode :: "string \<Rightarrow> stream list \<times> error option"
  s3_PutObject :: "string \<Rightarrow> string \<Rightarrow> string \<Rightarrow> string \<Rightarrow> error option"
  s3_PresignGetObject :: "string \<Rightarrow> string \<Rightarrow> int \<Rightarrow> error + string"
  db_UpdateVideo_error :: "Video \<Rightarrow> error option"

subsection \<open>The metadata store\<close>

text \<open>
  Modelled from the spec: \<open>cfg.db.GetVideo\<close> and \<open>cfg.db.UpdateVideo\<close> live in
  \<open>internal/database\<close>, which is not part of the sources at hand. The spec gives
  \<open>GetRecord(id) -> VideoRecord | NotFoundError\<close> and
  \<open>UpdateRecord(record) -> () | StoreError\<close>: a failed update leaves the store as it
  was, a successful one replaces the record stored under the record's id.
\<close>

definition db_GetVideo :: "world \<Rightarrow> uuid \<Rightarrow> error + Video" where
  "db_GetVideo w videoID =
     (case db w videoID of
        None \<Rightarrow> Inl (Error ''sql: no rows in result set'')
      | Some video \<Rightarrow> Inr video)"

definition db_UpdateVideo :: "env \<Rightarrow> Video \<Rightarrow> world \<Rightarrow> error option \<times> world" where
  "db_UpdateVideo e video w =
     (let w' = w\<lparr>calls := calls w @ [Call_UpdateVideo video]\<rparr> in
      case db_UpdateVideo_error e video of
        Some err \<Rightarrow> (Some err, w')
      | None \<Rightarrow> (None, w'\<lparr>db := (db w')(ID video \<mapsto> video)\<rparr>))"

subsection \<open>The object store\<close>

text \<open>
  \<open>cfg.s3Client.PutObject(ctx, &s3.PutObjectInput{Bucket, Key, Body, ContentType})\<close>:
  the object exists afterwards exactly when the call returned no error.
\<close>

definition PutObject :: "env \<Rightarrow> string \<Rightarrow> string \<Rightarrow> string \<Rightarrow> string \<Rightarrow> world \<Rightarrow> error option \<times> world" where
  "PutObject e bucket key body contentType w =
     (let w' = w\<lparr>calls := calls w @ [Call_PutObject bucket key body contentType]\<rparr> in
      case s3_PutObject e bucket key body contentType of
        Some err \<Rightarrow> (Some err, w')
      | None \<Rightarrow> (None, w'\<lparr>objects := (objects w')((bucket, key) \<mapsto> (contentType, body))\<rparr>))"

section \<open>Library functions on strings and bytes\<close>

text \<open>\<open>strings.Index(s, substr)\<close>: the first position of \<open>substr\<close> in \<open>s\<close>; Go's \<open>-1\<close> is \<open>None\<close>.\<close>

fun Index :: "string \<Rightarrow> string \<Rightarrow> nat option" where
  "Index [] substr = (if substr = [] then Some 0 else None)"
| "Index (c # s) substr =
     (if prefix substr (c # s) then Some 0 else map_option Suc (Index s substr))"

text \<open>
  \<open>strings.Cut(s, sep)\<close>: the text before and after the first \<open>sep\<close>, and whether
  \<open>sep\<close> occurs; without it, \<open>s\<close>, the empty string and \<open>false\<close>.
\<close>

definition Cut :: "string \<Rightarrow> string \<Rightarrow> string \<times> string \<times> bool" where
  "Cut s sep =
     (case Index s sep of
        Some i \<Rightarrow> (take i s, drop (i + length sep) s, True)
      | None \<Rightarrow> (s, [], False))"

text \<open>
  \<open>strings.Split(s, sep)\<close> for a non-empty separator: the pieces between the
  successive occurrences of \<open>sep\<close>. (The handlers split at \<open>"/"\<close> only; for the empty
  separator Go explodes \<open>s\<close> into its characters.)
\<close>

function Split :: "string \<Rightarrow> string \<Rightarrow> string list" where
  "Split s sep =
     (if sep = [] then map (\<lambda>c. [c]) s
      else case Index s sep of
             None \<Rightarrow> [s]
           | Some m \<Rightarrow> take m s # Split (drop (m + length sep) s) sep)"
  by pat_completeness auto
termination
proof (relation "measure (\<lambda>(s, sep). length s)")
  show "wf (measure (\<lambda>(s, sep). length s))"
    by simp
next
  fix s sep :: string and m :: nat
  assume sep: "sep \<noteq> []" and found: "Index s sep = Some m"
  have "Index t sep = Some k \<Longrightarrow> k + length sep \<le> length t" for t k
  proof (induction t arbitrary: k)
    case Nil
    then show ?case by (simp split: if_splits)
  next
    case (Cons c t)
    show ?case
    proof (cases "prefix sep (c # t)")
      case True
      with Cons.prems show ?thesis by (auto dest: prefix_length_le)
    next
      case False
      with Cons.prems obtain j where "Index t sep = Some j" "k = Suc j"
        by auto
      with Cons.IH show ?thesis by fastforce
    qed
  qed
  from this [OF found] sep
  show "((drop (m + length sep) s, sep), (s, sep)) \<in> measure (\<lambda>(s, sep). length s)"
    by (cases sep) auto
qed

text \<open>Indexing a slice: Go panics out of range.\<close>

definition index :: "'a list \<Rightarrow> nat \<Rightarrow> 'a option" where
  "index xs i = (if i < length xs then Some (xs ! i) else None)"

text \<open>
  \<open>base64.RawURLEncoding.EncodeToString\<close>: the URL-safe alphabet of RFC 4648, no
  padding. Three bytes give four characters; a rest of two bytes gives three, of one
  byte two.
\<close>

definition encodeURL :: string where
  "encodeURL = ''ABCDEFGHIJKLMNOPQRSTUVWXYZabcdefghijklmnopqrstuvwxyz0123456789-_''"

fun EncodeToString :: "8 word list \<Rightarrow> string" where
  "EncodeToString (a # b # c # src) =
     (let val = unat a * 65536 + unat b * 256 + unat c in
      [encodeURL ! (val div 262144 mod 64), encodeURL ! (val div 4096 mod 64),
       encodeURL ! (val div 64 mod 64), encodeURL ! (val mod 64)]) @ EncodeToString src"
| "EncodeToString [a, b] =
     (let val = unat a * 65536 + unat b * 256 in
      [encodeURL ! (val div 262144 mod 64), encodeURL ! (val div 4096 mod 64),
       encodeURL ! (val div 64 mod 64)])"
| "EncodeToString [a] =
     (let val = unat a * 65536 in
      [encodeURL ! (val div 262144 mod 64), encodeURL ! (val div 4096 mod 64)])"
| "EncodeToString [] = []"

text \<open>
  \<open>randomBytes := make([]byte, 32)\<close> followed by \<open>rand.Read(randomBytes)\<close>: the buffer
  starts as 32 zero bytes and keeps its length, whatever was written into it.
\<close>

definition make_and_Read :: "env \<Rightarrow> nat \<Rightarrow> error + 8 word list" where
  "make_and_Read e n =
     (case rand_Read e n of
        Inl err \<Rightarrow> Inl err
      | Inr written \<Rightarrow> Inr (take n written @ replicate (n - length written) 0))"

text \<open>\<open>time.Duration\<close> counts nanoseconds.\<close>

definition time_Second :: int where
  "time_Second = 1000000000"

definition time_Minute :: int where
  "time_Minute = 60 * time_Second"

section \<open>The content classifier: \<open>getVideoAspectRatio\<close>\<close>

text \<open>
  \<open>json.Unmarshal(out.Bytes(), &data)\<close> on the zero-valued \<open>data\<close>: the decoder first
  checks the syntax of the whole input and returns without touching \<open>data\<close> when it is
  invalid (the empty input is invalid: "unexpected end of JSON input"); a valid document
  is decoded, and a field of the wrong type is reported after the rest has been filled in.
  The result is the \<open>Streams\<close> slice afterwards and the error.
\<close>

definition json_Unmarshal :: "env \<Rightarrow> string \<Rightarrow> stream list \<times> error option" where
  "json_Unmarshal e out =
     (if out = [] then ([], Some (Error ''unexpected end of JSON input''))
      else case json_checkValid e out of
             Some err \<Rightarrow> ([], Some err)
           | None \<Rightarrow> json_decode e out)"

text \<open>
  The loop \<open>for _, s := range data.Streams\<close>: the first stream of type \<open>video\<close> with
  positive width and height decides; \<open>ratio := (s.Width * 1000) / s.Height\<close> is computed
  in Go's \<open>int\<close>.
\<close>

fun range_Streams :: "stream list \<Rightarrow> string \<times> error option" where
  "range_Streams [] = (''other'', None)"
| "range_Streams (s # ss) =
     (if CodecType s = ''video'' \<and> 0 <s Width s \<and> 0 <s Height s then
        (let ratio = sint (Width s * 1000) sdiv sint (Height s) in
         if ratio \<ge> 1700 \<and> ratio \<le> 1850 then (''16:9'', None)
         else if ratio \<ge> 520 \<and> ratio \<le> 600 then (''9:16'', None)
         else (''other'', None))
      else range_Streams ss)"

text \<open>The command line of the probe.\<close>

definition ffprobe :: "env \<Rightarrow> string \<Rightarrow> run_outcome" where
  "ffprobe e filePath =
     exec_Run e ''ffprobe''
       [''-v'', ''error'', ''-print_format'', ''json'', ''-show_streams'', filePath]"

text \<open>
  \<open>getVideoAspectRatio\<close> (\<open>src/unnamed/part_002\<close>, lines 77 to 117; the second copy
  in that file is the same): the error of \<open>cmd.Run()\<close> and the error of
  \<open>json.Unmarshal\<close> are dropped.
\<close>

definition getVideoAspectRatio :: "env \<Rightarrow> string \<Rightarrow> string \<times> error option" where
  "getVideoAspectRatio e filePath =
     (let cmd = ffprobe e filePath;
          out = run_stdout cmd;
          data = fst (json_Unmarshal e out)
      in range_Streams data)"

section \<open>The container normalizer: \<open>processVideoForFastStart\<close>\<close>

text \<open>\<open>src/unnamed/part_002\<close>, lines 60 to 75.\<close>

definition processVideoForFastStart :: "env \<Rightarrow> string \<Rightarrow> string \<times> error option" where
  "processVideoForFastStart e filePath =
     (let outputFilePath = filePath @ ''.processing'';
          cmd = exec_Run e ''ffmpeg''
                  [''-i'', filePath, ''-c'', ''copy'', ''-movflags'', ''faststart'',
                   ''-f'', ''mp4'', outputFilePath]
      in case run_error cmd of
           Some err \<Rightarrow> ([], Some err)
         | None \<Rightarrow> (outputFilePath, None))"

section \<open>The resolver: \<open>generatePresignedURL\<close> and \<open>dbVideoToSignedVideo\<close>\<close>

text \<open>\<open>src/unnamed/part_002\<close>, lines 25 to 58.\<close>

definition generatePresignedURL ::
  "env \<Rightarrow> string \<Rightarrow> string \<Rightarrow> int \<Rightarrow> world \<Rightarrow> (string \<times> error option) \<times> world" where
  "generatePresignedURL e bucket key expireTime w =
     (let w' = w\<lparr>calls := calls w @ [Call_PresignGetObject bucket key expireTime]\<rparr> in
      case s3_PresignGetObject e bucket key expireTime of
        Inl err \<Rightarrow> (([], Some err), w')
      | Inr url \<Rightarrow> ((url, None), w'))"

text \<open>
  The record arrives by value; \<open>video.VideoURL = &presignedURL\<close> points the copy's field
  at a new string and writes nothing through the old pointer.
\<close>

definition dbVideoToSignedVideo ::
  "apiConfig \<Rightarrow> env \<Rightarrow> Video \<Rightarrow> world \<Rightarrow> (Video \<times> error option) \<times> world" where
  "dbVideoToSignedVideo cfg e video w =
     (case VideoURL video of
        None \<Rightarrow> ((video, None), w)
      | Some url \<Rightarrow>
          if url = [] then ((video, None), w)
          else
            (case Cut url '','' of
               (bucket, key, ok) \<Rightarrow>
                 if \<not> ok then ((video, None), w)
                 else
                   (case generatePresignedURL e bucket key (time_Minute * 5) w of
                      ((presignedURL, Some err), w') \<Rightarrow> ((video, Some err), w')
                    | ((presignedURL, None), w') \<Rightarrow>
                        ((video\<lparr>VideoURL := Some presignedURL\<rparr>, None), w'))))"

section \<open>The upload handler\<close>

text \<open>The \<open>switch aspectRatio\<close> that prefixes the key with the orientation directory.\<close>

definition switch_aspectRatio :: "string \<Rightarrow> string \<Rightarrow> string" where
  "switch_aspectRatio aspectRatio fileName =
     (if aspectRatio = ''16:9'' then ''landscape/'' @ fileName
      else if aspectRatio = ''9:16'' then ''portrait/'' @ fileName
      else ''other/'' @ fileName)"

text \<open>
  The last part of \<open>handlerUploadVideo\<close> (\<open>src/unnamed/part_002\<close>, lines 244 to
  271), from the call of \<open>PutObject\<close> to the response: upload, encode the reference
  into the record, update the record, resolve the record for the response.
\<close>

definition store_and_respond ::
  "apiConfig \<Rightarrow> env \<Rightarrow> Video \<Rightarrow> string \<Rightarrow> string \<Rightarrow> string \<Rightarrow> world \<Rightarrow> response \<times> world" where
  "store_and_respond cfg e metadata fileName processedFile mediaType w =
  (case PutObject e (s3Bucket cfg) fileName processedFile mediaType w of
     (Some err, w1) \<Rightarrow>
       (respondWithError StatusInternalServerError ''Unable to update video'' (Some err), w1)
   | (None, w1) \<Rightarrow>
  (let videoURL = s3Bucket cfg @ '','' @ fileName;
       metadata = metadata\<lparr>VideoURL := Some videoURL\<rparr> in
  (case db_UpdateVideo e metadata w1 of
     (Some err, w2) \<Rightarrow>
       (respondWithError StatusInternalServerError ''Unable to update video'' (Some err), w2)
   | (None, w2) \<Rightarrow>
  (case dbVideoToSignedVideo cfg e metadata w2 of
     ((video, Some err), w3) \<Rightarrow>
       (respondWithError StatusInternalServerError ''Unable to update video'' (Some err), w3)
   | ((video, None), w3) \<Rightarrow>
       (respondWithJSON StatusOK video, w3)))))"

text \<open>
  \<open>handlerUploadVideo\<close> as in the revision that normalizes the container, checks the
  result of \<open>PutObject\<close> and answers with a signed URL (\<open>src/unnamed/part_002\<close>,
  lines 119 to 272); its last part is \<open>store_and_respond\<close> above. The deferred closing and removal of the temporary files
  touch neither store and are left out.
\<close>

definition handlerUploadVideo :: "apiConfig \<Rightarrow> env \<Rightarrow> request \<Rightarrow> world \<Rightarrow> response \<times> world" where
  "handlerUploadVideo cfg e r w =
  (case uuid_Parse e (PathValue_videoID r) of
     Inl err \<Rightarrow> (respondWithError StatusBadRequest ''Invalid ID'' (Some err), w)
   | Inr videoID \<Rightarrow>
  (case auth_GetBearerToken e (Header r) of
     Inl err \<Rightarrow> (respondWithError StatusUnauthorized ''Couldn't find JWT'' (Some err), w)
   | Inr token \<Rightarrow>
  (case auth_ValidateJWT e token (jwtSecret cfg) of
     Inl err \<Rightarrow> (respondWithError StatusUnauthorized ''Couldn't validate JWT'' (Some err), w)
   | Inr userID \<Rightarrow>
  (case db_GetVideo w videoID of
     Inl err \<Rightarrow> (respondWithError StatusBadRequest ''Unable to get video metadata'' (Some err), w)
   | Inr metadata \<Rightarrow>
  if UserID metadata \<noteq> userID
  then (respondWithError StatusUnauthorized ''Not your video m8'' None, w)
  else
  (case ParseMultipartForm e (Body r) (2 ^ 30) of
     Some err \<Rightarrow>
       (respondWithError StatusBadRequest ''Upload too large or invalid multipart form'' (Some err), w)
   | None \<Rightarrow>
  (case FormFile e (Body r) ''video'' of
     Inl err \<Rightarrow> (respondWithError StatusBadRequest ''Unable to parse form file'' (Some err), w)
   | Inr (file, contentTypeHeader) \<Rightarrow>
  (case mime_ParseMediaType e contentTypeHeader of
     Inl err \<Rightarrow> (respondWithError StatusBadRequest ''Unable to get mediaType'' (Some err), w)
   | Inr mediaType \<Rightarrow>
  if mediaType \<noteq> ''video/mp4''
  then (respondWithError StatusBadRequest ''Unable to get mediaType'' None, w)
  else
  (case os_CreateTemp e [] ''tubely-upload.mp4'' of
     Inl err \<Rightarrow>
       (respondWithError StatusInternalServerError ''Unable to create temp file'' (Some err), w)
   | Inr tempFile \<Rightarrow>
  (case io_Copy e tempFile file of
     Some err \<Rightarrow>
       (respondWithError StatusInternalServerError ''Unable to copy to temp file'' None, w)
   | None \<Rightarrow>
  (case make_and_Read e 32 of
     Inl err \<Rightarrow>
       (respondWithError StatusInternalServerError ''Unable to create image name'' (Some err), w)
   | Inr randomBytes \<Rightarrow>
  (let fileName = EncodeToString randomBytes in
  (case index (Split mediaType ''/'') 1 of
     None \<Rightarrow> (runtime_panic, w)
   | Some fileExtension \<Rightarrow>
  (let fileName = fileName @ ''.'' @ fileExtension in
  (case getVideoAspectRatio e tempFile of
     (aspectRatio, Some err) \<Rightarrow>
       (respondWithError StatusInternalServerError ''Unable to get file aspect ratio'' (Some err), w)
   | (aspectRatio, None) \<Rightarrow>
  (let fileName = switch_aspectRatio aspectRatio fileName in
  (case processVideoForFastStart e tempFile of
     (processedPath, Some err) \<Rightarrow>
       (respondWithError StatusInternalServerError ''Unable to process video for fast start''
          (Some err), w)
   | (processedPath, None) \<Rightarrow>
  (case os_Open e processedPath of
     Some err \<Rightarrow>
       (respondWithError StatusInternalServerError ''Unable to process video for fast start''
          (Some err), w)
   | None \<Rightarrow>
  store_and_respond cfg e metadata fileName processedPath mediaType w)))))))))))))))))"

text \<open>
  \<open>handlerUploadVideo\<close> as in \<open>src/handler_upload_video.go\<close>: no classifier, no
  normalizer; the values \<open>PutObject\<close> returns are dropped, and the record receives the
  object's public URL. (A third copy of the handler in the sources differs from this one
  only in calling the classifier and prefixing the key with the orientation directory;
  it drops the result of \<open>PutObject\<close> and builds the public URL in the same way.)
\<close>

definition handlerUploadVideo_direct :: "apiConfig \<Rightarrow> env \<Rightarrow> request \<Rightarrow> world \<Rightarrow> response \<times> world" where
  "handlerUploadVideo_direct cfg e r w =
  (case uuid_Parse e (PathValue_videoID r) of
     Inl err \<Rightarrow> (respondWithError StatusBadRequest ''Invalid ID'' (Some err), w)
   | Inr videoID \<Rightarrow>
  (case auth_GetBearerToken e (Header r) of
     Inl err \<Rightarrow> (respondWithError StatusUnauthorized ''Couldn't find JWT'' (Some err), w)
   | Inr token \<Rightarrow>
  (case auth_ValidateJWT e token (jwtSecret cfg) of
     Inl err \<Rightarrow> (respondWithError StatusUnauthorized ''Couldn't validate JWT'' (Some err), w)
   | Inr userID \<Rightarrow>
  (case db_GetVideo w videoID of
     Inl err \<Rightarrow> (respondWithError StatusBadRequest ''Unable to get video metadata'' (Some err), w)
   | Inr metadata \<Rightarrow>
  if UserID metadata \<noteq> userID
  then (respondWithError StatusUnauthorized ''Not your video m8'' None, w)
  else
  (case ParseMultipartForm e (Body r) (2 ^ 30) of
     Some err \<Rightarrow>
       (respondWithError StatusBadRequest ''Upload too large or invalid multipart form'' (Some err), w)
   | None \<Rightarrow>
  (case FormFile e (Body r) ''video'' of
     Inl err \<Rightarrow> (respondWithError StatusBadRequest ''Unable to parse form file'' (Some err), w)
   | Inr (file, contentTypeHeader) \<Rightarrow>
  (case mime_ParseMediaType e contentTypeHeader of
     Inl err \<Rightarrow> (respondWithError StatusBadRequest ''Unable to get mediaType'' (Some err), w)
   | Inr mediaType \<Rightarrow>
  if mediaType \<noteq> ''video/mp4''
  then (respondWithError StatusBadRequest ''Unable to get mediaType'' None, w)
  else
  (case os_CreateTemp e [] ''tubely-upload.mp4'' of
     Inl err \<Rightarrow>
       (respondWithError StatusInternalServerError ''Unable to create temp file'' (Some err), w)
   | Inr tempFile \<Rightarrow>
  (case io_Copy e tempFile file of
     Some err \<Rightarrow>
       (respondWithError StatusInternalServerError ''Unable to copy to temp file'' None, w)
   | None \<Rightarrow>
  (case make_and_Read e 32 of
     Inl err \<Rightarrow>
       (respondWithError StatusInternalServerError ''Unable to create image name'' (Some err), w)
   | Inr randomBytes \<Rightarrow>
  (let fileName = EncodeToString randomBytes in
  (case index (Split mediaType ''/'') 1 of
     None \<Rightarrow> (runtime_panic, w)
   | Some fileExtension \<Rightarrow>
  (let fileName = fileName @ ''.'' @ fileExtension;
       w1 = snd (PutObject e (s3Bucket cfg) fileName tempFile mediaType w);
       videoURL = ''https://'' @ s3Bucket cfg @ ''.s3.'' @ s3Region cfg @ ''.amazonaws.com/'' @ fileName;
       metadata = metadata\<lparr>VideoURL := Some videoURL\<rparr> in
  (case db_UpdateVideo e metadata w1 of
     (Some err, w2) \<Rightarrow>
       (respondWithError StatusInternalServerError ''Unable to update video'' (Some err), w2)
   | (None, w2) \<Rightarrow>
       (respondWithJSON StatusOK metadata, w2)))))))))))))))"

section \<open>Scenarios\<close>

text \<open>
  A concrete installation for the worked examples: one bucket, one record owned by
  \<open>U1\<close> with no video yet, and a well-formed upload request of its owner.
\<close>

definition cfg0 :: apiConfig where
  "cfg0 = \<lparr>jwtSecret = ''secret'', s3Bucket = ''tubely'', s3Region = ''eu-central-1''\<rparr>"

definition video0 :: Video where
  "video0 = \<lparr>ID = ''v1'', UserID = ''U1'', ThumbnailURL = None, VideoURL = None\<rparr>"

definition world0 :: world where
  "world0 = \<lparr>db = [''v1'' \<mapsto> video0], objects = Map.empty, calls = []\<rparr>"

definition request0 :: request where
  "request0 = \<lparr>PathValue_videoID = ''v1'',
                Header = [(''Authorization'', ''Bearer t'')],
                Body = ''multipart''\<rparr>"

text \<open>
  Collaborators that all succeed, except that the object store answers \<open>PutObject\<close>
  with \<open>put\<close>. The probe reports an audio stream and a 1280 by 720 video stream.
\<close>

definition demo_env :: "error option \<Rightarrow> env" where
  "demo_env put = \<lparr>
     uuid_Parse = Inr,
     auth_GetBearerToken = (\<lambda>header. Inr ''t''),
     auth_ValidateJWT = (\<lambda>token secret. Inr ''U1''),
     ParseMultipartForm = (\<lambda>body maxMemory. None),
     FormFile = (\<lambda>body name. Inr (''mp4 bytes'', ''video/mp4'')),
     mime_ParseMediaType = Inr,
     os_CreateTemp = (\<lambda>dir pattern. Inr ''/tmp/tubely-upload.mp4-1''),
     io_Copy = (\<lambda>dst src. None),
     os_Open = (\<lambda>name. None),
     rand_Read = (\<lambda>n. Inr [251, 255, 190, 0, 1, 2, 3, 4, 5, 6, 7, 8, 9, 10, 11, 12, 13,
                              14, 15, 16, 17, 18, 19, 20, 21, 22, 23, 24, 25, 26, 27, 28]),
     exec_Run = (\<lambda>name args. Exited None ''streams''),
     json_checkValid = (\<lambda>data. None),
     json_decode = (\<lambda>data. ([\<lparr>CodecType = ''audio'', Width = 0, Height = 0\<rparr>,
                               \<lparr>CodecType = ''video'', Width = 1280, Height = 720\<rparr>], None)),
     s3_PutObject = (\<lambda>bucket key body contentType. put),
     s3_PresignGetObject = (\<lambda>bucket key expires.
        Inr (''https://'' @ bucket @ ''.s3.amazonaws.com/'' @ key @ ''?X-Amz-Expires=300'')),
     db_UpdateVideo_error = (\<lambda>video. None)\<rparr>"

text \<open>The same, with the probe's document decoding to the given streams.\<close>

definition probe_env :: "stream list \<Rightarrow> env" where
  "probe_env streams = (demo_env None)\<lparr>json_decode := (\<lambda>data. (streams, None))\<rparr>"

text \<open>The same, with no \<open>ffprobe\<close> binary to start.\<close>

definition no_probe_env :: env where
  "no_probe_env =
     (demo_env None)\<lparr>exec_Run := (\<lambda>name args. NotStarted (Error ''executable file not found''))\<rparr>"

section \<open>Properties of the classifier\<close>

lemma range_Streams_skip:
  "\<forall>t\<in>set pre. \<not> (CodecType t = ''video'' \<and> 0 <s Width t \<and> 0 <s Height t) \<Longrightarrow>
   range_Streams (pre @ ss) = range_Streams ss"
  by (induction pre) auto

lemma sint_times_1000:
  fixes x :: "64 word"
  assumes "0 < sint x" and "sint x * 1000 < 2 ^ 63"
  shows "sint (x * 1000) = sint x * 1000"
proof -
  have "sint (x * 1000) = signed_take_bit 63 (sint x * 1000)"
    by (simp add: sint_word_ariths)
  also have "\<dots> = sint x * 1000"
    using assms by (intro signed_take_bit_int_eq_self) auto
  finally show ?thesis .
qed

lemma sdiv_nonneg: "0 \<le> (a::int) \<Longrightarrow> 0 < b \<Longrightarrow> a sdiv b = a div b"
  by (simp add: signed_divide_int_def sgn_if)

lemma range_Streams_snd: "snd (range_Streams ss) = None"
  by (induction ss) (auto simp: Let_def)

lemma getVideoAspectRatio_snd: "snd (getVideoAspectRatio e filePath) = None"
  by (simp add: getVideoAspectRatio_def Let_def range_Streams_snd)

text \<open>
  Claim C2, as the code has it. For the first stream of type \<open>video\<close> with width
  \<open>w > 0\<close> and height \<open>h > 0\<close>, provided \<open>w * 1000\<close> does not exceed the largest
  64-bit integer, the classifier computes \<open>ratio = w * 1000 div h\<close> and answers
  \<open>16:9\<close> (the key directory \<open>landscape/\<close>) when \<open>1700 \<le> ratio \<le> 1850\<close>, \<open>9:16\<close>
  (\<open>portrait/\<close>) when \<open>520 \<le> ratio \<le> 600\<close>, and \<open>other\<close> (\<open>other/\<close>) otherwise,
  never with an error.
\<close>

theorem classifier_ratio_ranges:
  assumes decoded: "fst (json_Unmarshal e (run_stdout (ffprobe e filePath))) = pre @ s # post"
    and pre: "\<forall>t\<in>set pre. \<not> (CodecType t = ''video'' \<and> 0 <s Width t \<and> 0 <s Height t)"
    and video: "CodecType s = ''video''"
    and pos: "0 < sint (Width s)" "0 < sint (Height s)"
    and nowrap: "sint (Width s) * 1000 < 2 ^ 63"
  shows "(let ratio = (sint (Width s) * 1000) div sint (Height s) in
          getVideoAspectRatio e filePath =
            (if 1700 \<le> ratio \<and> ratio \<le> 1850 then ''16:9''
             else if 520 \<le> ratio \<and> ratio \<le> 600 then ''9:16''
             else ''other'', None) \<and>
          switch_aspectRatio (fst (getVideoAspectRatio e filePath)) fileName =
            (if 1700 \<le> ratio \<and> ratio \<le> 1850 then ''landscape/''
             else if 520 \<le> ratio \<and> ratio \<le> 600 then ''portrait/''
             else ''other/'') @ fileName)"
proof -
  have "getVideoAspectRatio e filePath = range_Streams (s # post)"
    using decoded range_Streams_skip [OF pre] by (simp add: getVideoAspectRatio_def Let_def)
  moreover have "sint (Width s * 1000) sdiv sint (Height s)
                   = (sint (Width s) * 1000) div sint (Height s)"
    using pos nowrap by (simp add: sint_times_1000 sdiv_nonneg)
  ultimately show ?thesis
    using video pos by (simp add: Let_def word_sless_alt switch_aspectRatio_def)
qed

text \<open>
  The theorem at the 1280 by 720 stream behind an audio stream: the ratio is 1777, the
  answer \<open>16:9\<close>, the key directory \<open>landscape/\<close>.
\<close>

theorem classifier_ratio_ranges_witness:
  "getVideoAspectRatio (demo_env None) ''/tmp/tubely-upload.mp4-1'' = (''16:9'', None) \<and>
   switch_aspectRatio (fst (getVideoAspectRatio (demo_env None) ''/tmp/tubely-upload.mp4-1''))
     ''id.mp4'' = ''landscape/id.mp4''"
proof -
  let ?audio = "\<lparr>CodecType = ''audio'', Width = 0, Height = 0\<rparr>"
  let ?video = "\<lparr>CodecType = ''video'', Width = 1280, Height = 720\<rparr>"
  have decoded: "fst (json_Unmarshal (demo_env None)
                   (run_stdout (ffprobe (demo_env None) ''/tmp/tubely-upload.mp4-1'')))
                 = [?audio] @ ?video # []"
    by (simp add: demo_env_def ffprobe_def json_Unmarshal_def)
  have pre: "\<forall>t\<in>set [?audio]. \<not> (CodecType t = ''video'' \<and> 0 <s Width t \<and> 0 <s Height t)"
    by simp
  have video: "CodecType ?video = ''video''"
    by simp
  have pos: "0 < sint (Width ?video)" "0 < sint (Height ?video)"
    by simp_all
  have nowrap: "sint (Width ?video) * 1000 < 2 ^ 63"
    by simp
  from classifier_ratio_ranges [OF decoded pre video pos nowrap, of "''id.mp4''"]
  show ?thesis
    by (simp add: Let_def switch_aspectRatio_def)
qed

text \<open>
  Claim C2 as stated fails where \<open>w * 1000\<close> wraps around: for a stream of
  16000000000000000 by 9000000000000000 the ratio \<open>floor(w * 1000 / h)\<close> is 1777, inside
  the landscape range, and the classifier answers \<open>other\<close>.
\<close>

theorem classifier_ratio_overflow:
  "(0::int) < 16000000000000000 \<and> (0::int) < 9000000000000000 \<and>
   (16000000000000000 * 1000) div 9000000000000000 = (1777::int) \<and>
   getVideoAspectRatio
     (probe_env [\<lparr>CodecType = ''video'', Width = 16000000000000000,
                   Height = 9000000000000000\<rparr>])
     ''/tmp/tubely-upload.mp4-1'' = (''other'', None)"
  by (simp add: getVideoAspectRatio_def ffprobe_def json_Unmarshal_def probe_env_def
        demo_env_def Let_def word_sless_alt signed_divide_int_def)

text \<open>The boundary ratios of the two ranges and their neighbours, at height 1000.\<close>

lemma classifier_boundaries:
  "range_Streams [\<lparr>CodecType = ''video'', Width = 1700, Height = 1000\<rparr>] = (''16:9'', None)"
  "range_Streams [\<lparr>CodecType = ''video'', Width = 1850, Height = 1000\<rparr>] = (''16:9'', None)"
  "range_Streams [\<lparr>CodecType = ''video'', Width = 520, Height = 1000\<rparr>] = (''9:16'', None)"
  "range_Streams [\<lparr>CodecType = ''video'', Width = 600, Height = 1000\<rparr>] = (''9:16'', None)"
  "range_Streams [\<lparr>CodecType = ''video'', Width = 1699, Height = 1000\<rparr>] = (''other'', None)"
  "range_Streams [\<lparr>CodecType = ''video'', Width = 1851, Height = 1000\<rparr>] = (''other'', None)"
  "range_Streams [\<lparr>CodecType = ''video'', Width = 519, Height = 1000\<rparr>] = (''other'', None)"
  "range_Streams [\<lparr>CodecType = ''video'', Width = 601, Height = 1000\<rparr>] = (''other'', None)"
  by (simp_all add: word_sless_alt signed_divide_int_def)

text \<open>
  Claim C3. When the probe did not start, or printed nothing, or printed a document that
  is not valid JSON, or no decoded stream has type \<open>video\<close> with positive width and
  height, the classifier answers \<open>other\<close> with a nil error.
\<close>

theorem classifier_no_qualifying_stream:
  assumes "(\<exists>err. ffprobe e filePath = NotStarted err)
         \<or> run_stdout (ffprobe e filePath) = []
         \<or> json_checkValid e (run_stdout (ffprobe e filePath)) \<noteq> None
         \<or> (\<forall>t\<in>set (fst (json_Unmarshal e (run_stdout (ffprobe e filePath)))).
               \<not> (CodecType t = ''video'' \<and> 0 <s Width t \<and> 0 <s Height t))"
  shows "getVideoAspectRatio e filePath = (''other'', None)"
proof -
  let ?out = "run_stdout (ffprobe e filePath)"
  let ?data = "fst (json_Unmarshal e ?out)"
  have "\<forall>t\<in>set ?data. \<not> (CodecType t = ''video'' \<and> 0 <s Width t \<and> 0 <s Height t)"
    using assms by (auto simp: json_Unmarshal_def split: if_splits option.splits)
  from range_Streams_skip [OF this, of "[]"] show ?thesis
    by (simp add: getVideoAspectRatio_def Let_def)
qed

text \<open>The theorem where no \<open>ffprobe\<close> binary can be started.\<close>

theorem classifier_no_qualifying_stream_witness:
  "ffprobe no_probe_env ''/tmp/tubely-upload.mp4-1'' = NotStarted (Error ''executable file not found'') \<and>
   getVideoAspectRatio no_probe_env ''/tmp/tubely-upload.mp4-1'' = (''other'', None)"
proof -
  have started: "ffprobe no_probe_env ''/tmp/tubely-upload.mp4-1''
                   = NotStarted (Error ''executable file not found'')"
    by (simp add: ffprobe_def no_probe_env_def demo_env_def)
  then have "\<exists>err. ffprobe no_probe_env ''/tmp/tubely-upload.mp4-1'' = NotStarted err"
    by blast
  then show ?thesis
    using started classifier_no_qualifying_stream [of no_probe_env "''/tmp/tubely-upload.mp4-1''"]
    by blast
qed

section \<open>Properties of the resolver\<close>

lemma Index_absent: "c \<notin> set s \<Longrightarrow> Index s [c] = None"
  by (induction s) auto

lemma Index_first: "c \<notin> set a \<Longrightarrow> Index (a @ c # b) [c] = Some (length a)"
  by (induction a) auto

lemma Cut_absent: "CHR '','' \<notin> set s \<Longrightarrow> Cut s '','' = (s, [], False)"
  by (simp add: Cut_def Index_absent)

lemma Cut_first: "CHR '','' \<notin> set a \<Longrightarrow> Cut (a @ '','' @ b) '','' = (a, b, True)"
  by (simp add: Cut_def Index_first)

lemma dbVideoToSignedVideo_stores:
  "db (snd (dbVideoToSignedVideo cfg e video w)) = db w \<and>
   objects (snd (dbVideoToSignedVideo cfg e video w)) = objects w"
  by (simp add: dbVideoToSignedVideo_def generatePresignedURL_def Let_def
           split: option.split sum.split prod.split)

lemma dbVideoToSignedVideo_calls:
  "calls (snd (dbVideoToSignedVideo cfg e video w)) =
     calls w @ (case VideoURL video of None \<Rightarrow> [] | Some url \<Rightarrow>
        (case Cut url '','' of (bucket, key, ok) \<Rightarrow>
           if url \<noteq> [] \<and> ok then [Call_PresignGetObject bucket key (time_Minute * 5)] else []))"
  by (simp add: dbVideoToSignedVideo_def generatePresignedURL_def Let_def
           split: option.split sum.split prod.split)

text \<open>
  Claim C6. A record whose \<open>VideoURL\<close> is nil or the empty string comes back unchanged
  with a nil error; no call is made.
\<close>

theorem resolve_absent_or_empty:
  assumes "VideoURL video = None \<or> VideoURL video = Some []"
  shows "dbVideoToSignedVideo cfg e video w = ((video, None), w)"
  using assms by (auto simp: dbVideoToSignedVideo_def)

text \<open>The theorem at the record that has no video yet.\<close>

theorem resolve_absent_or_empty_witness:
  "VideoURL video0 = None \<and>
   dbVideoToSignedVideo cfg0 (demo_env None) video0 world0 = ((video0, None), world0)"
proof -
  have absent: "VideoURL video0 = None"
    by (simp add: video0_def)
  then have "VideoURL video0 = None \<or> VideoURL video0 = Some []"
    by simp
  from absent resolve_absent_or_empty [OF this] show ?thesis
    by simp
qed

text \<open>
  Claim C4, as the code has it. A record whose \<open>VideoURL\<close> holds no comma comes back
  unchanged with a nil error; no call is made. (A value with several commas is cut at
  the first one and signed like any other.)
\<close>

theorem resolve_without_delimiter:
  assumes "VideoURL video = Some url" and "CHR '','' \<notin> set url"
  shows "dbVideoToSignedVideo cfg e video w = ((video, None), w)"
  using assms by (simp add: dbVideoToSignedVideo_def Cut_absent)

text \<open>The theorem at a record that still holds a public object URL.\<close>

theorem resolve_without_delimiter_witness:
  "CHR '','' \<notin> set ''https://tubely.s3.eu-central-1.amazonaws.com/id.mp4'' \<and>
   dbVideoToSignedVideo cfg0 (demo_env None)
     (video0\<lparr>VideoURL := Some ''https://tubely.s3.eu-central-1.amazonaws.com/id.mp4''\<rparr>) world0 =
   ((video0\<lparr>VideoURL := Some ''https://tubely.s3.eu-central-1.amazonaws.com/id.mp4''\<rparr>, None),
    world0)"
proof -
  have url: "VideoURL (video0\<lparr>VideoURL := Some ''https://tubely.s3.eu-central-1.amazonaws.com/id.mp4''\<rparr>)
               = Some ''https://tubely.s3.eu-central-1.amazonaws.com/id.mp4''"
    by simp
  have plain: "CHR '','' \<notin> set ''https://tubely.s3.eu-central-1.amazonaws.com/id.mp4''"
    by simp
  from plain resolve_without_delimiter [OF url plain] show ?thesis
    by simp
qed

text \<open>
  Claim C4 as stated fails for a value with more than one comma: \<open>tubely,landscape/a,b.mp4\<close>
  does not split into exactly two parts, yet the resolver cuts it at the first comma,
  asks for a signed URL of bucket \<open>tubely\<close> and key \<open>landscape/a,b.mp4\<close>, and returns a
  changed record.
\<close>

theorem resolve_splits_at_first_comma:
  "fst (dbVideoToSignedVideo cfg0 (demo_env None)
         (video0\<lparr>VideoURL := Some ''tubely,landscape/a,b.mp4''\<rparr>) world0) =
     (video0\<lparr>VideoURL :=
        Some ''https://tubely.s3.amazonaws.com/landscape/a,b.mp4?X-Amz-Expires=300''\<rparr>, None) \<and>
   calls (snd (dbVideoToSignedVideo cfg0 (demo_env None)
         (video0\<lparr>VideoURL := Some ''tubely,landscape/a,b.mp4''\<rparr>) world0)) =
     [Call_PresignGetObject ''tubely'' ''landscape/a,b.mp4'' 300000000000] \<and>
   dbVideoToSignedVideo cfg0 (demo_env None)
         (video0\<lparr>VideoURL := Some ''tubely,landscape/a,b.mp4''\<rparr>) world0 \<noteq>
     ((video0\<lparr>VideoURL := Some ''tubely,landscape/a,b.mp4''\<rparr>, None), world0)"
  by (simp add: dbVideoToSignedVideo_def generatePresignedURL_def Cut_def Let_def
        demo_env_def world0_def video0_def time_Minute_def time_Second_def)



text \<open>
  Claim C9. Resolving a record any number of times leaves the metadata store and the
  object store as they were; the only calls it adds to the log are requests to the
  presign client, none to \<open>UpdateVideo\<close>; and when the record holds \<open>bucket,key\<close>,
  each of the \<open>n\<close> resolutions asks for the same bucket and key.
\<close>

theorem resolve_never_writes:
  "db (((\<lambda>w. snd (dbVideoToSignedVideo cfg e video w)) ^^ n) w) = db w \<and>
   objects (((\<lambda>w. snd (dbVideoToSignedVideo cfg e video w)) ^^ n) w) = objects w \<and>
   (\<exists>added. calls (((\<lambda>w. snd (dbVideoToSignedVideo cfg e video w)) ^^ n) w) = calls w @ added \<and>
      (\<forall>c\<in>set added. \<exists>b k. c = Call_PresignGetObject b k (time_Minute * 5))) \<and>
   (VideoURL video = Some (bucket @ '','' @ key) \<and> CHR '','' \<notin> set bucket \<longrightarrow>
      calls (((\<lambda>w. snd (dbVideoToSignedVideo cfg e video w)) ^^ n) w) =
        calls w @ replicate n (Call_PresignGetObject bucket key (time_Minute * 5)))"
proof (induction n)
  case 0
  show ?case by simp
next
  case (Suc n)
  let ?w = "((\<lambda>w. snd (dbVideoToSignedVideo cfg e video w)) ^^ n) w"
  have step: "((\<lambda>w. snd (dbVideoToSignedVideo cfg e video w)) ^^ Suc n) w
                = snd (dbVideoToSignedVideo cfg e video ?w)"
    by simp
  have stores: "db (snd (dbVideoToSignedVideo cfg e video ?w)) = db w"
    "objects (snd (dbVideoToSignedVideo cfg e video ?w)) = objects w"
    using Suc.IH dbVideoToSignedVideo_stores [of cfg e video ?w] by simp_all
  from Suc.IH obtain added where
    added: "calls ?w = calls w @ added"
      "\<forall>c\<in>set added. \<exists>b k. c = Call_PresignGetObject b k (time_Minute * 5)"
    by blast
  obtain new where
    new: "calls (snd (dbVideoToSignedVideo cfg e video ?w)) = calls ?w @ new"
      "\<forall>c\<in>set new. \<exists>b k. c = Call_PresignGetObject b k (time_Minute * 5)"
    by (auto simp: dbVideoToSignedVideo_calls split: option.splits prod.splits)
  from added new
  have log: "\<exists>added. calls (snd (dbVideoToSignedVideo cfg e video ?w)) = calls w @ added \<and>
      (\<forall>c\<in>set added. \<exists>b k. c = Call_PresignGetObject b k (time_Minute * 5))"
    by (intro exI [of _ "added @ new"]) auto
  have sig: "calls (snd (dbVideoToSignedVideo cfg e video ?w)) =
        calls w @ replicate (Suc n) (Call_PresignGetObject bucket key (time_Minute * 5))"
    if "VideoURL video = Some (bucket @ '','' @ key)" "CHR '','' \<notin> set bucket"
    using Suc.IH that Cut_first [OF that(2), of key]
    by (simp add: dbVideoToSignedVideo_calls replicate_append_same)
  show ?case
    unfolding step using stores log sig by blast
qed

text \<open>The theorem at two resolutions of the record holding \<open>tubely,landscape/id.mp4\<close>.\<close>

theorem resolve_never_writes_witness:
  "db (snd (dbVideoToSignedVideo cfg0 (demo_env None)
              (video0\<lparr>VideoURL := Some ''tubely,landscape/id.mp4''\<rparr>)
         (snd (dbVideoToSignedVideo cfg0 (demo_env None)
              (video0\<lparr>VideoURL := Some ''tubely,landscape/id.mp4''\<rparr>) world0)))) = db world0 \<and>
   calls (snd (dbVideoToSignedVideo cfg0 (demo_env None)
              (video0\<lparr>VideoURL := Some ''tubely,landscape/id.mp4''\<rparr>)
         (snd (dbVideoToSignedVideo cfg0 (demo_env None)
              (video0\<lparr>VideoURL := Some ''tubely,landscape/id.mp4''\<rparr>) world0)))) =
     [Call_PresignGetObject ''tubely'' ''landscape/id.mp4'' (time_Minute * 5),
      Call_PresignGetObject ''tubely'' ''landscape/id.mp4'' (time_Minute * 5)]"
  using resolve_never_writes [where cfg = cfg0 and e = "demo_env None"
      and video = "video0\<lparr>VideoURL := Some ''tubely,landscape/id.mp4''\<rparr>"
      and n = "Suc (Suc 0)" and w = world0 and bucket = "''tubely''"
      and key = "''landscape/id.mp4''"]
  by (simp add: world0_def)

section \<open>Properties of the upload handler\<close>

lemma length_make_and_Read: "make_and_Read e n = Inr bs \<Longrightarrow> length bs = n"
  by (auto simp: make_and_Read_def split: sum.splits)

lemma length_EncodeToString: "length (EncodeToString bs) = (4 * length bs + 2) div 3"
  by (induction bs rule: EncodeToString.induct) (simp_all add: Let_def)

lemma set_EncodeToString: "set (EncodeToString bs) \<subseteq> set encodeURL"
proof -
  have len: "length encodeURL = 64"
    by (simp add: encodeURL_def)
  have "encodeURL ! (n mod 64) \<in> set encodeURL" for n
    by (rule nth_mem) (simp add: len)
  then show ?thesis
    by (induction bs rule: EncodeToString.induct) (simp_all add: Let_def)
qed

text \<open>The encoder on the test vectors of RFC 4648 (\<open>f\<close>, \<open>fo\<close>, \<open>foo\<close>, \<open>foob\<close>), without padding.\<close>

lemma EncodeToString_rfc4648:
  "EncodeToString [] = []"
  "EncodeToString [102] = ''Zg''"
  "EncodeToString [102, 111] = ''Zm8''"
  "EncodeToString [102, 111, 111] = ''Zm9v''"
  "EncodeToString [102, 111, 111, 98] = ''Zm9vYg''"
  by (simp_all add: encodeURL_def)

lemma subtype_of_video_mp4: "index (Split ''video/mp4'' ''/'') 1 = Some ''mp4''"
  by (simp add: index_def)

text \<open>The last part of the handler, with the resolver's result named once.\<close>

lemma store_and_respond_unfold:
  "store_and_respond cfg e metadata key body contentType w =
     (let stored = metadata\<lparr>VideoURL := Some (s3Bucket cfg @ '','' @ key)\<rparr>;
          w0 = w\<lparr>calls := calls w @ [Call_PutObject (s3Bucket cfg) key body contentType]\<rparr>;
          w1 = w0\<lparr>objects := (objects w)((s3Bucket cfg, key) \<mapsto> (contentType, body)),
                   calls := calls w0 @ [Call_UpdateVideo stored]\<rparr>;
          w2 = w1\<lparr>db := (db w)(ID metadata \<mapsto> stored)\<rparr>;
          resolved = dbVideoToSignedVideo cfg e stored w2
      in case s3_PutObject e (s3Bucket cfg) key body contentType of
           Some err \<Rightarrow>
             (respondWithError StatusInternalServerError ''Unable to update video'' (Some err), w0)
         | None \<Rightarrow>
             (case db_UpdateVideo_error e stored of
                Some err \<Rightarrow>
                  (respondWithError StatusInternalServerError ''Unable to update video'' (Some err), w1)
              | None \<Rightarrow>
                  (case snd (fst resolved) of
                     Some err \<Rightarrow>
                       respondWithError StatusInternalServerError ''Unable to update video'' (Some err)
                   | None \<Rightarrow> respondWithJSON StatusOK (fst (fst resolved)),
                   snd resolved)))"
  by (simp add: store_and_respond_def PutObject_def db_UpdateVideo_def Let_def
        split: option.split prod.split)

lemma store_and_respond_put_failure:
  "s3_PutObject e (s3Bucket cfg) key body contentType = Some err \<Longrightarrow>
   store_and_respond cfg e metadata key body contentType w =
     (respondWithError StatusInternalServerError ''Unable to update video'' (Some err),
      w\<lparr>calls := calls w @ [Call_PutObject (s3Bucket cfg) key body contentType]\<rparr>)"
  by (simp add: store_and_respond_unfold Let_def)

lemma store_and_respond_calls:
  "\<exists>rest. calls (snd (store_and_respond cfg e metadata key body contentType w)) =
     calls w @ Call_PutObject (s3Bucket cfg) key body contentType # rest"
  by (simp add: store_and_respond_unfold Let_def dbVideoToSignedVideo_calls
        split: option.split)

lemma store_and_respond_message:
  "fst (store_and_respond cfg e metadata key body contentType w) \<noteq>
     respondWithError StatusInternalServerError ''Unable to get file aspect ratio'' err"
  by (simp add: store_and_respond_unfold Let_def split: option.split)

lemma store_and_respond_success:
  assumes "fst (store_and_respond cfg e metadata key body contentType w) = respondWithJSON code video"
  shows "s3_PutObject e (s3Bucket cfg) key body contentType = None \<and>
         db_UpdateVideo_error e (metadata\<lparr>VideoURL := Some (s3Bucket cfg @ '','' @ key)\<rparr>) = None \<and>
         code = StatusOK \<and>
         db (snd (store_and_respond cfg e metadata key body contentType w)) =
           (db w)(ID metadata \<mapsto> metadata\<lparr>VideoURL := Some (s3Bucket cfg @ '','' @ key)\<rparr>) \<and>
         objects (snd (store_and_respond cfg e metadata key body contentType w)) =
           (objects w)((s3Bucket cfg, key) \<mapsto> (contentType, body)) \<and>
         (\<exists>rest. calls (snd (store_and_respond cfg e metadata key body contentType w)) =
           calls w @ Call_PutObject (s3Bucket cfg) key body contentType #
             Call_UpdateVideo (metadata\<lparr>VideoURL := Some (s3Bucket cfg @ '','' @ key)\<rparr>) # rest)"
  using assms
  by (simp add: store_and_respond_unfold Let_def dbVideoToSignedVideo_calls
        dbVideoToSignedVideo_stores split: option.splits)

text \<open>
  A run of the handler that made a call or answered with a record went through every
  check before the upload.
\<close>

lemma handlerUploadVideo_upload_step:
  "snd (handlerUploadVideo cfg e r w) \<noteq> w \<or>
   (\<exists>code video. fst (handlerUploadVideo cfg e r w) = respondWithJSON code video) \<longrightarrow>
   (\<exists>videoID metadata tempFile randomBytes aspectRatio.
       uuid_Parse e (PathValue_videoID r) = Inr videoID \<and>
       db_GetVideo w videoID = Inr metadata \<and>
       os_CreateTemp e [] ''tubely-upload.mp4'' = Inr tempFile \<and>
       make_and_Read e 32 = Inr randomBytes \<and>
       getVideoAspectRatio e tempFile = (aspectRatio, None) \<and>
       handlerUploadVideo cfg e r w =
         store_and_respond cfg e metadata
           (switch_aspectRatio aspectRatio (EncodeToString randomBytes @ ''.mp4''))
           (tempFile @ ''.processing'') ''video/mp4'' w)"
  unfolding handlerUploadVideo_def
  by (simp add: Let_def index_def processVideoForFastStart_def
           split: sum.split option.split prod.split)

lemma handlerUploadVideo_direct_upload_step:
  "snd (handlerUploadVideo_direct cfg e r w) \<noteq> w \<or>
   (\<exists>code video. fst (handlerUploadVideo_direct cfg e r w) = respondWithJSON code video) \<longrightarrow>
   (\<exists>videoID metadata tempFile randomBytes.
       uuid_Parse e (PathValue_videoID r) = Inr videoID \<and>
       db_GetVideo w videoID = Inr metadata \<and>
       os_CreateTemp e [] ''tubely-upload.mp4'' = Inr tempFile \<and>
       make_and_Read e 32 = Inr randomBytes \<and>
       (let key = EncodeToString randomBytes @ ''.mp4'';
            stored = metadata\<lparr>VideoURL :=
              Some (''https://'' @ s3Bucket cfg @ ''.s3.'' @ s3Region cfg @ ''.amazonaws.com/'' @ key)\<rparr>
        in handlerUploadVideo_direct cfg e r w =
           (case db_UpdateVideo e stored
                   (snd (PutObject e (s3Bucket cfg) key tempFile ''video/mp4'' w)) of
              (Some err, w2) \<Rightarrow>
                (respondWithError StatusInternalServerError ''Unable to update video'' (Some err), w2)
            | (None, w2) \<Rightarrow> (respondWithJSON StatusOK stored, w2))))"
  unfolding handlerUploadVideo_direct_def
  by (simp add: Let_def index_def db_UpdateVideo_def PutObject_def
           split: sum.split option.split prod.split)

text \<open>Conversely, a request that passes every check reaches the upload.\<close>

lemma handlerUploadVideo_reaches_upload:
  assumes "uuid_Parse e (PathValue_videoID r) = Inr videoID"
    and "auth_GetBearerToken e (Header r) = Inr token"
    and "auth_ValidateJWT e token (jwtSecret cfg) = Inr (UserID metadata)"
    and "db_GetVideo w videoID = Inr metadata"
    and "ParseMultipartForm e (Body r) (2 ^ 30) = None"
    and "FormFile e (Body r) ''video'' = Inr (part, contentTypeHeader)"
    and "mime_ParseMediaType e contentTypeHeader = Inr ''video/mp4''"
    and "os_CreateTemp e [] ''tubely-upload.mp4'' = Inr tempFile"
    and "io_Copy e tempFile part = None"
    and "make_and_Read e 32 = Inr randomBytes"
    and "run_error (exec_Run e ''ffmpeg''
           [''-i'', tempFile, ''-c'', ''copy'', ''-movflags'', ''faststart'', ''-f'', ''mp4'',
            tempFile @ ''.processing'']) = None"
    and "os_Open e (tempFile @ ''.processing'') = None"
  shows "handlerUploadVideo cfg e r w =
           store_and_respond cfg e metadata
             (switch_aspectRatio (fst (getVideoAspectRatio e tempFile))
                (EncodeToString randomBytes @ ''.mp4''))
             (tempFile @ ''.processing'') ''video/mp4'' w"
proof -
  obtain aspectRatio where "getVideoAspectRatio e tempFile = (aspectRatio, None)"
    using getVideoAspectRatio_snd [of e tempFile] by (cases "getVideoAspectRatio e tempFile") auto
  with assms show ?thesis
    by (simp add: handlerUploadVideo_def Let_def index_def processVideoForFastStart_def)
qed

lemma handlerUploadVideo_direct_reaches_upload:
  assumes "uuid_Parse e (PathValue_videoID r) = Inr videoID"
    and "auth_GetBearerToken e (Header r) = Inr token"
    and "auth_ValidateJWT e token (jwtSecret cfg) = Inr (UserID metadata)"
    and "db_GetVideo w videoID = Inr metadata"
    and "ParseMultipartForm e (Body r) (2 ^ 30) = None"
    and "FormFile e (Body r) ''video'' = Inr (part, contentTypeHeader)"
    and "mime_ParseMediaType e contentTypeHeader = Inr ''video/mp4''"
    and "os_CreateTemp e [] ''tubely-upload.mp4'' = Inr tempFile"
    and "io_Copy e tempFile part = None"
    and "make_and_Read e 32 = Inr randomBytes"
  shows "handlerUploadVideo_direct cfg e r w =
           (let key = EncodeToString randomBytes @ ''.mp4'';
                stored = metadata\<lparr>VideoURL :=
                  Some (''https://'' @ s3Bucket cfg @ ''.s3.'' @ s3Region cfg @ ''.amazonaws.com/'' @ key)\<rparr>
            in case db_UpdateVideo e stored
                      (snd (PutObject e (s3Bucket cfg) key tempFile ''video/mp4'' w)) of
                 (Some err, w2) \<Rightarrow>
                   (respondWithError StatusInternalServerError ''Unable to update video'' (Some err), w2)
               | (None, w2) \<Rightarrow> (respondWithJSON StatusOK stored, w2))"
  using assms
  by (simp add: handlerUploadVideo_direct_def Let_def index_def)

subsection \<open>The scenario, evaluated\<close>

lemma demo_random_id:
  "EncodeToString [251, 255, 190, 0, 1, 2, 3, 4, 5, 6, 7, 8, 9, 10, 11, 12, 13,
                   14, 15, 16, 17, 18, 19, 20, 21, 22, 23, 24, 25, 26, 27, 28]
   = ''-_--AAECAwQFBgcICQoLDA0ODxAREhMUFRYXGBkaGxw''"
  by (simp add: encodeURL_def)

lemma demo_make_and_Read:
  "make_and_Read (demo_env put) 32 =
     Inr [251, 255, 190, 0, 1, 2, 3, 4, 5, 6, 7, 8, 9, 10, 11, 12, 13,
          14, 15, 16, 17, 18, 19, 20, 21, 22, 23, 24, 25, 26, 27, 28]"
  by (simp add: make_and_Read_def demo_env_def)

lemma demo_classified: "getVideoAspectRatio (demo_env put) filePath = (''16:9'', None)"
  by (simp add: getVideoAspectRatio_def ffprobe_def json_Unmarshal_def demo_env_def Let_def
        signed_divide_int_def word_sless_alt)

lemma demo_upload:
  "handlerUploadVideo cfg0 (demo_env put) request0 world0 =
     store_and_respond cfg0 (demo_env put) video0
       ''landscape/-_--AAECAwQFBgcICQoLDA0ODxAREhMUFRYXGBkaGxw.mp4''
       ''/tmp/tubely-upload.mp4-1.processing'' ''video/mp4'' world0"
proof -
  have "handlerUploadVideo cfg0 (demo_env put) request0 world0 =
     store_and_respond cfg0 (demo_env put) video0
       (switch_aspectRatio (fst (getVideoAspectRatio (demo_env put) ''/tmp/tubely-upload.mp4-1''))
          (EncodeToString [251, 255, 190, 0, 1, 2, 3, 4, 5, 6, 7, 8, 9, 10, 11, 12, 13,
                   14, 15, 16, 17, 18, 19, 20, 21, 22, 23, 24, 25, 26, 27, 28] @ ''.mp4''))
       (''/tmp/tubely-upload.mp4-1'' @ ''.processing'') ''video/mp4'' world0"
    by (rule handlerUploadVideo_reaches_upload [where videoID = "''v1''" and token = "''t''"
          and part = "''mp4 bytes''" and contentTypeHeader = "''video/mp4''"])
       (simp_all add: demo_make_and_Read,
        simp_all add: demo_env_def cfg0_def request0_def world0_def video0_def db_GetVideo_def)
  then show ?thesis
    by (simp add: demo_random_id demo_classified switch_aspectRatio_def del: EncodeToString.simps)
qed

text \<open>The upload of the scenario succeeds and is answered with the signed URL.\<close>

lemma demo_upload_response:
  "fst (handlerUploadVideo cfg0 (demo_env None) request0 world0) =
     respondWithJSON StatusOK
       (video0\<lparr>VideoURL := Some ''https://tubely.s3.amazonaws.com/landscape/-_--AAECAwQFBgcICQoLDA0ODxAREhMUFRYXGBkaGxw.mp4?X-Amz-Expires=300''\<rparr>)"
  unfolding demo_upload store_and_respond_unfold
  by (simp add: Let_def dbVideoToSignedVideo_def generatePresignedURL_def Cut_def
        demo_env_def cfg0_def)

text \<open>The calls made by the upload of the scenario, and the record it leaves.\<close>

lemma demo_upload_stores:
  "calls (snd (handlerUploadVideo cfg0 (demo_env None) request0 world0)) =
     [Call_PutObject ''tubely'' ''landscape/-_--AAECAwQFBgcICQoLDA0ODxAREhMUFRYXGBkaGxw.mp4''
        ''/tmp/tubely-upload.mp4-1.processing'' ''video/mp4'',
      Call_UpdateVideo
        (video0\<lparr>VideoURL := Some ''tubely,landscape/-_--AAECAwQFBgcICQoLDA0ODxAREhMUFRYXGBkaGxw.mp4''\<rparr>),
      Call_PresignGetObject ''tubely'' ''landscape/-_--AAECAwQFBgcICQoLDA0ODxAREhMUFRYXGBkaGxw.mp4''
        (time_Minute * 5)]"
  "db (snd (handlerUploadVideo cfg0 (demo_env None) request0 world0)) ''v1'' =
     Some (video0\<lparr>VideoURL := Some ''tubely,landscape/-_--AAECAwQFBgcICQoLDA0ODxAREhMUFRYXGBkaGxw.mp4''\<rparr>)"
  unfolding demo_upload store_and_respond_unfold
  by (simp_all add: Let_def dbVideoToSignedVideo_calls dbVideoToSignedVideo_stores Cut_def
        demo_env_def cfg0_def world0_def video0_def)

text \<open>
  With an object store that fails, the handler that checks the result of \<open>PutObject\<close>
  stops after the upload.
\<close>

lemma demo_put_failure:
  "handlerUploadVideo cfg0 (demo_env (Some (Error ''RequestTimeout''))) request0 world0 =
     (respondWithError StatusInternalServerError ''Unable to update video''
        (Some (Error ''RequestTimeout'')),
      world0\<lparr>calls := [Call_PutObject ''tubely''
        ''landscape/-_--AAECAwQFBgcICQoLDA0ODxAREhMUFRYXGBkaGxw.mp4''
        ''/tmp/tubely-upload.mp4-1.processing'' ''video/mp4'']\<rparr>)"
  unfolding demo_upload
  by (subst store_and_respond_put_failure [where err = "Error ''RequestTimeout''"])
     (simp_all add: demo_env_def cfg0_def world0_def)

lemma demo_upload_direct:
  "handlerUploadVideo_direct cfg0 (demo_env put) request0 world0 =
     (respondWithJSON StatusOK
        (video0\<lparr>VideoURL := Some ''https://tubely.s3.eu-central-1.amazonaws.com/-_--AAECAwQFBgcICQoLDA0ODxAREhMUFRYXGBkaGxw.mp4''\<rparr>),
      snd (db_UpdateVideo (demo_env put)
        (video0\<lparr>VideoURL := Some ''https://tubely.s3.eu-central-1.amazonaws.com/-_--AAECAwQFBgcICQoLDA0ODxAREhMUFRYXGBkaGxw.mp4''\<rparr>)
        (snd (PutObject (demo_env put) ''tubely'' ''-_--AAECAwQFBgcICQoLDA0ODxAREhMUFRYXGBkaGxw.mp4''
               ''/tmp/tubely-upload.mp4-1'' ''video/mp4'' world0))))"
proof -
  have "handlerUploadVideo_direct cfg0 (demo_env put) request0 world0 =
           (let key = EncodeToString [251, 255, 190, 0, 1, 2, 3, 4, 5, 6, 7, 8, 9, 10, 11, 12, 13,
                   14, 15, 16, 17, 18, 19, 20, 21, 22, 23, 24, 25, 26, 27, 28] @ ''.mp4'';
                stored = video0\<lparr>VideoURL :=
                  Some (''https://'' @ s3Bucket cfg0 @ ''.s3.'' @ s3Region cfg0 @ ''.amazonaws.com/'' @ key)\<rparr>
            in case db_UpdateVideo (demo_env put) stored
                      (snd (PutObject (demo_env put) (s3Bucket cfg0) key ''/tmp/tubely-upload.mp4-1'' ''video/mp4'' world0)) of
                 (Some err, w2) \<Rightarrow>
                   (respondWithError StatusInternalServerError ''Unable to update video'' (Some err), w2)
               | (None, w2) \<Rightarrow> (respondWithJSON StatusOK stored, w2))"
    by (rule handlerUploadVideo_direct_reaches_upload [where videoID = "''v1''" and token = "''t''"
          and part = "''mp4 bytes''" and contentTypeHeader = "''video/mp4''"])
       (simp_all add: demo_make_and_Read,
        simp_all add: demo_env_def cfg0_def request0_def world0_def video0_def db_GetVideo_def)
  then show ?thesis
    apply (simp add: demo_random_id Let_def del: EncodeToString.simps)
    apply (simp add: cfg0_def db_UpdateVideo_def demo_env_def)
    done
qed

subsection \<open>The classifier never stops an upload\<close>

text \<open>
  Claim C10. The classifier returns a nil error whatever the path and whatever the probe
  and the decoder did, so the handler never answers \<open>Unable to get file aspect ratio\<close>.
\<close>

theorem aspect_ratio_error_unreachable:
  "snd (getVideoAspectRatio e filePath) = None \<and>
   (\<forall>err. fst (handlerUploadVideo cfg e r w) \<noteq>
      respondWithError StatusInternalServerError ''Unable to get file aspect ratio'' err)"
proof (intro conjI allI)
  show "snd (getVideoAspectRatio e filePath) = None"
    by (rule getVideoAspectRatio_snd)
next
  fix err
  have "getVideoAspectRatio e p \<noteq> (a, Some x)" for p a x
    using getVideoAspectRatio_snd [of e p] by auto
  then show "fst (handlerUploadVideo cfg e r w) \<noteq>
      respondWithError StatusInternalServerError ''Unable to get file aspect ratio'' err"
    by (simp add: handlerUploadVideo_def Let_def store_and_respond_message
          split: sum.split option.split prod.split)
qed

text \<open>The theorem where no \<open>ffprobe\<close> binary can be started.\<close>

theorem aspect_ratio_error_unreachable_witness:
  "snd (getVideoAspectRatio no_probe_env ''/tmp/tubely-upload.mp4-1'') = None \<and>
   fst (handlerUploadVideo cfg0 no_probe_env request0 world0) \<noteq>
      respondWithError StatusInternalServerError ''Unable to get file aspect ratio''
        (Some (Error ''executable file not found''))"
  using aspect_ratio_error_unreachable [of no_probe_env "''/tmp/tubely-upload.mp4-1''" cfg0
      request0 world0]
  by blast

subsection \<open>The storage key\<close>

text \<open>
  Claim C7. After a successful upload the object lies under the key
  \<open>{orientation}/{random-id}.mp4\<close>: the orientation is \<open>landscape\<close>, \<open>portrait\<close> or
  \<open>other\<close> according to the classifier's answer for the spooled file, the random id is
  the unpadded URL-safe base64 text (43 characters of the URL-safe alphabet) of the 32
  bytes obtained from \<open>crypto/rand\<close>, and \<open>mp4\<close> is the subtype of \<open>video/mp4\<close>.
\<close>

theorem storage_key_form:
  assumes "fst (handlerUploadVideo cfg e r w) = respondWithJSON code video"
  shows "\<exists>tempFile randomBytes category orientation.
           os_CreateTemp e [] ''tubely-upload.mp4'' = Inr tempFile \<and>
           make_and_Read e 32 = Inr randomBytes \<and>
           length randomBytes = 32 \<and>
           getVideoAspectRatio e tempFile = (category, None) \<and>
           orientation = (if category = ''16:9'' then ''landscape''
                          else if category = ''9:16'' then ''portrait'' else ''other'') \<and>
           length (EncodeToString randomBytes) = 43 \<and>
           set (EncodeToString randomBytes) \<subseteq> set encodeURL \<and>
           index (Split ''video/mp4'' ''/'') 1 = Some ''mp4'' \<and>
           objects (snd (handlerUploadVideo cfg e r w))
             (s3Bucket cfg, orientation @ ''/'' @ EncodeToString randomBytes @ ''.'' @ ''mp4'') =
               Some (''video/mp4'', tempFile @ ''.processing'') \<and>
           (\<exists>rest. calls (snd (handlerUploadVideo cfg e r w)) =
              calls w @ Call_PutObject (s3Bucket cfg)
                (orientation @ ''/'' @ EncodeToString randomBytes @ ''.'' @ ''mp4'')
                (tempFile @ ''.processing'') ''video/mp4'' # rest)"
proof -
  from assms handlerUploadVideo_upload_step [of cfg e r w]
  obtain metadata tempFile randomBytes category where
    temp: "os_CreateTemp e [] ''tubely-upload.mp4'' = Inr tempFile"
    and rnd: "make_and_Read e 32 = Inr randomBytes"
    and cls: "getVideoAspectRatio e tempFile = (category, None)"
    and H: "handlerUploadVideo cfg e r w =
              store_and_respond cfg e metadata
                (switch_aspectRatio category (EncodeToString randomBytes @ ''.mp4''))
                (tempFile @ ''.processing'') ''video/mp4'' w"
    by blast
  let ?orientation = "if category = ''16:9'' then ''landscape''
                      else if category = ''9:16'' then ''portrait'' else ''other''"
  have key: "switch_aspectRatio category (EncodeToString randomBytes @ ''.mp4'') =
             ?orientation @ ''/'' @ EncodeToString randomBytes @ ''.'' @ ''mp4''"
    by (simp add: switch_aspectRatio_def)
  have len: "length randomBytes = 32"
    using rnd by (rule length_make_and_Read)
  then have len64: "length (EncodeToString randomBytes) = 43"
    by (simp add: length_EncodeToString)
  from assms [unfolded H] store_and_respond_success
  have "objects (snd (handlerUploadVideo cfg e r w)) =
          (objects w)((s3Bucket cfg, switch_aspectRatio category (EncodeToString randomBytes @ ''.mp4''))
             \<mapsto> (''video/mp4'', tempFile @ ''.processing''))"
    unfolding H by blast
  then have obj: "objects (snd (handlerUploadVideo cfg e r w))
             (s3Bucket cfg, ?orientation @ ''/'' @ EncodeToString randomBytes @ ''.'' @ ''mp4'') =
               Some (''video/mp4'', tempFile @ ''.processing'')"
    unfolding key by simp
  from store_and_respond_calls [of cfg e metadata _ _ "''video/mp4''" w]
  have log: "\<exists>rest. calls (snd (handlerUploadVideo cfg e r w)) =
              calls w @ Call_PutObject (s3Bucket cfg)
                (?orientation @ ''/'' @ EncodeToString randomBytes @ ''.'' @ ''mp4'')
                (tempFile @ ''.processing'') ''video/mp4'' # rest"
    unfolding H key .
  from temp rnd len cls len64 set_EncodeToString [of randomBytes] subtype_of_video_mp4 obj log
  show ?thesis
    by blast
qed

text \<open>
  The theorem at the scenario: the 1280 by 720 upload is stored under \<open>landscape/\<close>, the
  base64 text of the 32 bytes, and \<open>.mp4\<close>.
\<close>

theorem storage_key_form_witness:
  "fst (handlerUploadVideo cfg0 (demo_env None) request0 world0) =
     respondWithJSON StatusOK
       (video0\<lparr>VideoURL := Some ''https://tubely.s3.amazonaws.com/landscape/-_--AAECAwQFBgcICQoLDA0ODxAREhMUFRYXGBkaGxw.mp4?X-Amz-Expires=300''\<rparr>) \<and>
   objects (snd (handlerUploadVideo cfg0 (demo_env None) request0 world0))
     (''tubely'', ''landscape/-_--AAECAwQFBgcICQoLDA0ODxAREhMUFRYXGBkaGxw.mp4'') =
       Some (''video/mp4'', ''/tmp/tubely-upload.mp4-1.processing'')"
proof -
  note ok = demo_upload_response
  from storage_key_form [OF ok]
  obtain tempFile randomBytes category orientation where
    temp: "os_CreateTemp (demo_env None) [] ''tubely-upload.mp4'' = Inr tempFile"
    and rnd: "make_and_Read (demo_env None) 32 = Inr randomBytes"
    and cls: "getVideoAspectRatio (demo_env None) tempFile = (category, None)"
    and ori: "orientation = (if category = ''16:9'' then ''landscape''
                    else if category = ''9:16'' then ''portrait'' else ''other'')"
    and obj: "objects (snd (handlerUploadVideo cfg0 (demo_env None) request0 world0))
       (s3Bucket cfg0, orientation @ ''/'' @ EncodeToString randomBytes @ ''.'' @ ''mp4'') =
         Some (''video/mp4'', tempFile @ ''.processing'')"
    by blast
  from temp have 1: "tempFile = ''/tmp/tubely-upload.mp4-1''"
    by (simp add: demo_env_def)
  from rnd have 2: "EncodeToString randomBytes = ''-_--AAECAwQFBgcICQoLDA0ODxAREhMUFRYXGBkaGxw''"
    unfolding demo_make_and_Read using demo_random_id by auto
  from cls ori have 3: "orientation = ''landscape''"
    by (simp add: demo_classified)
  have 4: "s3Bucket cfg0 = ''tubely''"
    by (simp add: cfg0_def)
  from obj have "objects (snd (handlerUploadVideo cfg0 (demo_env None) request0 world0))
     (''tubely'', ''landscape/-_--AAECAwQFBgcICQoLDA0ODxAREhMUFRYXGBkaGxw.mp4'') =
       Some (''video/mp4'', ''/tmp/tubely-upload.mp4-1.processing'')"
    unfolding 1 2 3 4 by simp
  with ok show ?thesis
    by simp
qed

subsection \<open>A failed upload\<close>

text \<open>
  In the handler that checks the result of \<open>PutObject\<close>, a failed upload ends the run:
  the answer is the store error, the log ends with the upload, and both stores are as
  they were.
\<close>

lemma handlerUploadVideo_put_failure:
  assumes log: "calls (snd (handlerUploadVideo cfg e r w)) =
                  calls w @ Call_PutObject bucket key body contentType # rest"
    and fail: "s3_PutObject e bucket key body contentType = Some err"
  shows "handlerUploadVideo cfg e r w =
           (respondWithError StatusInternalServerError ''Unable to update video'' (Some err),
            w\<lparr>calls := calls w @ [Call_PutObject bucket key body contentType]\<rparr>)"
proof -
  from log have "snd (handlerUploadVideo cfg e r w) \<noteq> w"
    by auto
  with handlerUploadVideo_upload_step [of cfg e r w]
  obtain metadata key' body' where
    H: "handlerUploadVideo cfg e r w = store_and_respond cfg e metadata key' body' ''video/mp4'' w"
    by blast
  from store_and_respond_calls [of cfg e metadata key' body' "''video/mp4''" w] log
  have "Call_PutObject bucket key body contentType =
        Call_PutObject (s3Bucket cfg) key' body' ''video/mp4''"
    unfolding H by auto
  with fail H show ?thesis
    by (simp add: store_and_respond_put_failure)
qed

text \<open>
  Claim C1 (a failed \<open>PutObject\<close> ends the run with a store error, and the record's
  location is not written) does not hold in the handler of \<open>handler_upload_video.go\<close>,
  which drops what \<open>PutObject\<close> returns. With an object store that answers every
  upload with an error, the request of the scenario is answered with status 200,
  \<open>UpdateVideo\<close> is called, and the record then names an object that is not in the
  store.
\<close>

theorem direct_handler_ignores_put_failure:
  "s3_PutObject (demo_env (Some (Error ''RequestTimeout''))) ''tubely''
     ''-_--AAECAwQFBgcICQoLDA0ODxAREhMUFRYXGBkaGxw.mp4'' ''/tmp/tubely-upload.mp4-1'' ''video/mp4''
     = Some (Error ''RequestTimeout'') \<and>
   fst (handlerUploadVideo_direct cfg0 (demo_env (Some (Error ''RequestTimeout''))) request0 world0) =
     respondWithJSON StatusOK
       (video0\<lparr>VideoURL := Some ''https://tubely.s3.eu-central-1.amazonaws.com/-_--AAECAwQFBgcICQoLDA0ODxAREhMUFRYXGBkaGxw.mp4''\<rparr>) \<and>
   calls (snd (handlerUploadVideo_direct cfg0 (demo_env (Some (Error ''RequestTimeout''))) request0 world0)) =
     [Call_PutObject ''tubely'' ''-_--AAECAwQFBgcICQoLDA0ODxAREhMUFRYXGBkaGxw.mp4''
        ''/tmp/tubely-upload.mp4-1'' ''video/mp4'',
      Call_UpdateVideo
        (video0\<lparr>VideoURL := Some ''https://tubely.s3.eu-central-1.amazonaws.com/-_--AAECAwQFBgcICQoLDA0ODxAREhMUFRYXGBkaGxw.mp4''\<rparr>)] \<and>
   db (snd (handlerUploadVideo_direct cfg0 (demo_env (Some (Error ''RequestTimeout''))) request0 world0)) ''v1'' =
     Some (video0\<lparr>VideoURL := Some ''https://tubely.s3.eu-central-1.amazonaws.com/-_--AAECAwQFBgcICQoLDA0ODxAREhMUFRYXGBkaGxw.mp4''\<rparr>) \<and>
   objects (snd (handlerUploadVideo_direct cfg0 (demo_env (Some (Error ''RequestTimeout''))) request0 world0))
     (''tubely'', ''-_--AAECAwQFBgcICQoLDA0ODxAREhMUFRYXGBkaGxw.mp4'') = None"
  unfolding demo_upload_direct
  by (simp add: db_UpdateVideo_def PutObject_def Let_def demo_env_def world0_def video0_def)

subsection \<open>The persisted reference\<close>

text \<open>
  Claim C5, as the code has it. The handler that checks the result of \<open>PutObject\<close>
  persists, on success, exactly \<open>{bucket},{key}\<close>: the configured bucket, one comma, the
  key under which the object was stored. The handler of \<open>handler_upload_video.go\<close>
  persists the object's public URL \<open>https://{bucket}.s3.{region}.amazonaws.com/{key}\<close>.
\<close>

theorem persisted_location_format:
  "((\<exists>code video. fst (handlerUploadVideo cfg e r w) = respondWithJSON code video) \<longrightarrow>
      (\<exists>videoID metadata key body rest.
         uuid_Parse e (PathValue_videoID r) = Inr videoID \<and>
         db_GetVideo w videoID = Inr metadata \<and>
         calls (snd (handlerUploadVideo cfg e r w)) =
           calls w @ Call_PutObject (s3Bucket cfg) key body ''video/mp4'' #
             Call_UpdateVideo (metadata\<lparr>VideoURL := Some (s3Bucket cfg @ '','' @ key)\<rparr>) # rest \<and>
         objects (snd (handlerUploadVideo cfg e r w)) (s3Bucket cfg, key) =
           Some (''video/mp4'', body) \<and>
         db (snd (handlerUploadVideo cfg e r w)) (ID metadata) =
           Some (metadata\<lparr>VideoURL := Some (s3Bucket cfg @ '','' @ key)\<rparr>))) \<and>
   ((\<exists>code video. fst (handlerUploadVideo_direct cfg e r w) = respondWithJSON code video) \<longrightarrow>
      (\<exists>videoID metadata key body.
         uuid_Parse e (PathValue_videoID r) = Inr videoID \<and>
         db_GetVideo w videoID = Inr metadata \<and>
         calls (snd (handlerUploadVideo_direct cfg e r w)) =
           calls w @ [Call_PutObject (s3Bucket cfg) key body ''video/mp4'',
             Call_UpdateVideo (metadata\<lparr>VideoURL :=
               Some (''https://'' @ s3Bucket cfg @ ''.s3.'' @ s3Region cfg @ ''.amazonaws.com/'' @ key)\<rparr>)] \<and>
         db (snd (handlerUploadVideo_direct cfg e r w)) (ID metadata) =
           Some (metadata\<lparr>VideoURL :=
               Some (''https://'' @ s3Bucket cfg @ ''.s3.'' @ s3Region cfg @ ''.amazonaws.com/'' @ key)\<rparr>)))"
proof (intro conjI impI)
  assume ok: "\<exists>code video. fst (handlerUploadVideo cfg e r w) = respondWithJSON code video"
  with handlerUploadVideo_upload_step [of cfg e r w]
  obtain videoID metadata key body where
    parse: "uuid_Parse e (PathValue_videoID r) = Inr videoID"
    and get: "db_GetVideo w videoID = Inr metadata"
    and H: "handlerUploadVideo cfg e r w = store_and_respond cfg e metadata key body ''video/mp4'' w"
    by blast
  from ok obtain code video where
    "fst (store_and_respond cfg e metadata key body ''video/mp4'' w) = respondWithJSON code video"
    unfolding H by blast
  from store_and_respond_success [OF this]
  obtain rest where
    "calls (snd (handlerUploadVideo cfg e r w)) =
       calls w @ Call_PutObject (s3Bucket cfg) key body ''video/mp4'' #
         Call_UpdateVideo (metadata\<lparr>VideoURL := Some (s3Bucket cfg @ '','' @ key)\<rparr>) # rest"
    "objects (snd (handlerUploadVideo cfg e r w)) (s3Bucket cfg, key) = Some (''video/mp4'', body)"
    "db (snd (handlerUploadVideo cfg e r w)) (ID metadata) =
       Some (metadata\<lparr>VideoURL := Some (s3Bucket cfg @ '','' @ key)\<rparr>)"
    unfolding H by auto
  with parse get
  show "\<exists>videoID metadata key body rest.
         uuid_Parse e (PathValue_videoID r) = Inr videoID \<and>
         db_GetVideo w videoID = Inr metadata \<and>
         calls (snd (handlerUploadVideo cfg e r w)) =
           calls w @ Call_PutObject (s3Bucket cfg) key body ''video/mp4'' #
             Call_UpdateVideo (metadata\<lparr>VideoURL := Some (s3Bucket cfg @ '','' @ key)\<rparr>) # rest \<and>
         objects (snd (handlerUploadVideo cfg e r w)) (s3Bucket cfg, key) =
           Some (''video/mp4'', body) \<and>
         db (snd (handlerUploadVideo cfg e r w)) (ID metadata) =
           Some (metadata\<lparr>VideoURL := Some (s3Bucket cfg @ '','' @ key)\<rparr>)"
    by blast
next
  assume ok: "\<exists>code video. fst (handlerUploadVideo_direct cfg e r w) = respondWithJSON code video"
  with handlerUploadVideo_direct_upload_step [of cfg e r w]
  obtain videoID metadata tempFile randomBytes where
    parse: "uuid_Parse e (PathValue_videoID r) = Inr videoID"
    and get: "db_GetVideo w videoID = Inr metadata"
    and H: "handlerUploadVideo_direct cfg e r w =
           (case db_UpdateVideo e
                   (metadata\<lparr>VideoURL :=
                      Some (''https://'' @ s3Bucket cfg @ ''.s3.'' @ s3Region cfg @
                            ''.amazonaws.com/'' @ EncodeToString randomBytes @ ''.mp4'')\<rparr>)
                   (snd (PutObject e (s3Bucket cfg) (EncodeToString randomBytes @ ''.mp4'')
                           tempFile ''video/mp4'' w)) of
              (Some err, w2) \<Rightarrow>
                (respondWithError StatusInternalServerError ''Unable to update video'' (Some err), w2)
            | (None, w2) \<Rightarrow>
                (respondWithJSON StatusOK
                   (metadata\<lparr>VideoURL :=
                      Some (''https://'' @ s3Bucket cfg @ ''.s3.'' @ s3Region cfg @
                            ''.amazonaws.com/'' @ EncodeToString randomBytes @ ''.mp4'')\<rparr>), w2))"
    unfolding Let_def by blast
  let ?key = "EncodeToString randomBytes @ ''.mp4''"
  let ?stored = "metadata\<lparr>VideoURL :=
                   Some (''https://'' @ s3Bucket cfg @ ''.s3.'' @ s3Region cfg @
                         ''.amazonaws.com/'' @ ?key)\<rparr>"
  from ok have upd: "db_UpdateVideo_error e ?stored = None"
    unfolding H by (auto simp: db_UpdateVideo_def Let_def split: option.splits)
  have "calls (snd (handlerUploadVideo_direct cfg e r w)) =
           calls w @ [Call_PutObject (s3Bucket cfg) ?key tempFile ''video/mp4'',
             Call_UpdateVideo ?stored]"
    and "db (snd (handlerUploadVideo_direct cfg e r w)) (ID metadata) = Some ?stored"
    unfolding H using upd
    by (simp_all add: db_UpdateVideo_def PutObject_def Let_def split: option.split)
  with parse get
  show "\<exists>videoID metadata key body.
         uuid_Parse e (PathValue_videoID r) = Inr videoID \<and>
         db_GetVideo w videoID = Inr metadata \<and>
         calls (snd (handlerUploadVideo_direct cfg e r w)) =
           calls w @ [Call_PutObject (s3Bucket cfg) key body ''video/mp4'',
             Call_UpdateVideo (metadata\<lparr>VideoURL :=
               Some (''https://'' @ s3Bucket cfg @ ''.s3.'' @ s3Region cfg @ ''.amazonaws.com/'' @ key)\<rparr>)] \<and>
         db (snd (handlerUploadVideo_direct cfg e r w)) (ID metadata) =
           Some (metadata\<lparr>VideoURL :=
               Some (''https://'' @ s3Bucket cfg @ ''.s3.'' @ s3Region cfg @ ''.amazonaws.com/'' @ key)\<rparr>)"
    by blast
qed

text \<open>
  The theorem at the scenario, for both handlers: what each answers and what each leaves
  in the record.
\<close>

theorem persisted_location_format_witness:
  "fst (handlerUploadVideo cfg0 (demo_env None) request0 world0) =
     respondWithJSON StatusOK
       (video0\<lparr>VideoURL := Some ''https://tubely.s3.amazonaws.com/landscape/-_--AAECAwQFBgcICQoLDA0ODxAREhMUFRYXGBkaGxw.mp4?X-Amz-Expires=300''\<rparr>) \<and>
   db (snd (handlerUploadVideo cfg0 (demo_env None) request0 world0)) ''v1'' =
     Some (video0\<lparr>VideoURL := Some ''tubely,landscape/-_--AAECAwQFBgcICQoLDA0ODxAREhMUFRYXGBkaGxw.mp4''\<rparr>) \<and>
   fst (handlerUploadVideo_direct cfg0 (demo_env None) request0 world0) =
     respondWithJSON StatusOK
       (video0\<lparr>VideoURL := Some ''https://tubely.s3.eu-central-1.amazonaws.com/-_--AAECAwQFBgcICQoLDA0ODxAREhMUFRYXGBkaGxw.mp4''\<rparr>) \<and>
   db (snd (handlerUploadVideo_direct cfg0 (demo_env None) request0 world0)) ''v1'' =
     Some (video0\<lparr>VideoURL := Some ''https://tubely.s3.eu-central-1.amazonaws.com/-_--AAECAwQFBgcICQoLDA0ODxAREhMUFRYXGBkaGxw.mp4''\<rparr>)"
proof -
  note ok = demo_upload_response
  have ok_direct: "fst (handlerUploadVideo_direct cfg0 (demo_env None) request0 world0) =
     respondWithJSON StatusOK
       (video0\<lparr>VideoURL := Some ''https://tubely.s3.eu-central-1.amazonaws.com/-_--AAECAwQFBgcICQoLDA0ODxAREhMUFRYXGBkaGxw.mp4''\<rparr>)"
    unfolding demo_upload_direct by simp
  have parse: "uuid_Parse (demo_env None) (PathValue_videoID request0) = Inr videoID
                 \<longleftrightarrow> videoID = ''v1''" for videoID
    by (auto simp: demo_env_def request0_def)
  have get: "db_GetVideo world0 ''v1'' = Inr metadata \<longleftrightarrow> metadata = video0" for metadata
    by (auto simp: db_GetVideo_def world0_def)
  have ident: "ID video0 = ''v1''" "s3Bucket cfg0 = ''tubely''" "s3Region cfg0 = ''eu-central-1''"
    "calls world0 = []"
    by (simp_all add: video0_def cfg0_def world0_def)
  note inst = persisted_location_format [of cfg0 "demo_env None" request0 world0]
  from ok have "\<exists>code video. fst (handlerUploadVideo cfg0 (demo_env None) request0 world0)
                  = respondWithJSON code video"
    by blast
  with inst obtain key where
    "calls (snd (handlerUploadVideo cfg0 (demo_env None) request0 world0)) =
       Call_PutObject ''tubely'' key ''/tmp/tubely-upload.mp4-1.processing'' ''video/mp4'' #
         Call_UpdateVideo (video0\<lparr>VideoURL := Some (''tubely'' @ '','' @ key)\<rparr>) #
         [Call_PresignGetObject ''tubely'' ''landscape/-_--AAECAwQFBgcICQoLDA0ODxAREhMUFRYXGBkaGxw.mp4''
           (time_Minute * 5)]"
    "db (snd (handlerUploadVideo cfg0 (demo_env None) request0 world0)) ''v1'' =
       Some (video0\<lparr>VideoURL := Some (''tubely'' @ '','' @ key)\<rparr>)"
    by (auto simp: parse get ident demo_upload_stores(1))
  then have stored: "db (snd (handlerUploadVideo cfg0 (demo_env None) request0 world0)) ''v1'' =
     Some (video0\<lparr>VideoURL := Some ''tubely,landscape/-_--AAECAwQFBgcICQoLDA0ODxAREhMUFRYXGBkaGxw.mp4''\<rparr>)"
    by (simp add: demo_upload_stores(1))
  from ok_direct have "\<exists>code video. fst (handlerUploadVideo_direct cfg0 (demo_env None) request0 world0)
                  = respondWithJSON code video"
    by blast
  with inst obtain key' body' where
    "calls (snd (handlerUploadVideo_direct cfg0 (demo_env None) request0 world0)) =
       [Call_PutObject ''tubely'' key' body' ''video/mp4'',
        Call_UpdateVideo (video0\<lparr>VideoURL :=
          Some (''https://'' @ ''tubely'' @ ''.s3.'' @ ''eu-central-1'' @ ''.amazonaws.com/'' @ key')\<rparr>)]"
    "db (snd (handlerUploadVideo_direct cfg0 (demo_env None) request0 world0)) ''v1'' =
       Some (video0\<lparr>VideoURL :=
          Some (''https://'' @ ''tubely'' @ ''.s3.'' @ ''eu-central-1'' @ ''.amazonaws.com/'' @ key')\<rparr>)"
    by (auto simp: parse get ident)
  then have stored_direct:
    "db (snd (handlerUploadVideo_direct cfg0 (demo_env None) request0 world0)) ''v1'' =
     Some (video0\<lparr>VideoURL := Some ''https://tubely.s3.eu-central-1.amazonaws.com/-_--AAECAwQFBgcICQoLDA0ODxAREhMUFRYXGBkaGxw.mp4''\<rparr>)"
    unfolding demo_upload_direct
    by (simp add: db_UpdateVideo_def PutObject_def Let_def demo_env_def world0_def)
  from ok stored ok_direct stored_direct show ?thesis
    by blast
qed

text \<open>
  Claim C5 as stated fails in the handler of \<open>handler_upload_video.go\<close>: the upload of
  the scenario succeeds, the object is stored, and the record receives the object's
  public URL, which is not \<open>tubely\<close>, a comma and the key.
\<close>

theorem direct_handler_persists_https_url:
  "fst (handlerUploadVideo_direct cfg0 (demo_env None) request0 world0) =
     respondWithJSON StatusOK
       (video0\<lparr>VideoURL := Some ''https://tubely.s3.eu-central-1.amazonaws.com/-_--AAECAwQFBgcICQoLDA0ODxAREhMUFRYXGBkaGxw.mp4''\<rparr>) \<and>
   objects (snd (handlerUploadVideo_direct cfg0 (demo_env None) request0 world0))
     (''tubely'', ''-_--AAECAwQFBgcICQoLDA0ODxAREhMUFRYXGBkaGxw.mp4'') =
       Some (''video/mp4'', ''/tmp/tubely-upload.mp4-1'') \<and>
   db (snd (handlerUploadVideo_direct cfg0 (demo_env None) request0 world0)) ''v1'' =
     Some (video0\<lparr>VideoURL := Some ''https://tubely.s3.eu-central-1.amazonaws.com/-_--AAECAwQFBgcICQoLDA0ODxAREhMUFRYXGBkaGxw.mp4''\<rparr>) \<and>
   ''https://tubely.s3.eu-central-1.amazonaws.com/-_--AAECAwQFBgcICQoLDA0ODxAREhMUFRYXGBkaGxw.mp4''
     \<noteq> ''tubely'' @ '','' @ ''-_--AAECAwQFBgcICQoLDA0ODxAREhMUFRYXGBkaGxw.mp4''"
  unfolding demo_upload_direct
  by (simp add: db_UpdateVideo_def PutObject_def Let_def demo_env_def world0_def video0_def)

end
